theory Spec2Isabelle
  imports Main "HOL-Library.AList"
begin

section \<open>The Pong relay server: session registry and event handlers\<close>

text \<open>
  The development embeds \<^verbatim>\<open>src/server.js\<close>: the class \<^verbatim>\<open>GameManager\<close> (the two
  tables \<^verbatim>\<open>activeGames\<close> and \<^verbatim>\<open>playerSockets\<close> and the methods on them) and the
  Socket.IO event handlers registered for every connection. Each handler runs to
  completion on the single-threaded event loop, so a handler is a function from the
  manager's state to the new state and the list of calls it makes on the transport.
  The clock (\<^verbatim>\<open>Date.now()\<close>) and the random draw (\<^verbatim>\<open>Math.random()\<close>) are inputs of the
  handler that reads them. The file \<^verbatim>\<open>src/unnamed/part_000\<close> is an earlier variant of the
  same server (no \<^verbatim>\<open>lastActivity\<close>, no callbacks, no cleanup timer); the development
  follows \<^verbatim>\<open>src/server.js\<close>.
\<close>

subsection \<open>JavaScript values\<close>

text \<open>
  Payloads are opaque to the server; they are stored and forwarded. Numbers that the
  server itself writes are integers (scores, the clock in milliseconds).
\<close>

datatype jsval =
    JUndefined
  | JNull
  | JNum int
  | JStr string
  | JArr "jsval list"
  | JObj "(string \<times> jsval) list"

text \<open>
  A nullable string field (\<^verbatim>\<open>null\<close> or a string) is a \<open>string option\<close>. In a condition,
  JavaScript takes \<^verbatim>\<open>null\<close>, \<^verbatim>\<open>undefined\<close> and the empty string as false.
\<close>

fun truthy :: "string option \<Rightarrow> bool" where
  "truthy None = False"
| "truthy (Some s) = (s \<noteq> [])"

subsection \<open>A JavaScript \<^verbatim>\<open>Map\<close> with string keys\<close>

text \<open>
  A \<^verbatim>\<open>Map\<close> keeps its entries in insertion order, one entry per key: \<^verbatim>\<open>set\<close> on a key
  that is present replaces the value in place, on a new key it appends; \<^verbatim>\<open>delete\<close> drops
  the entry. This is an association list with \<^const>\<open>AList.update\<close>, \<^const>\<open>AList.delete\<close>
  and \<^const>\<open>map_of\<close>. The keys of the list of a \<^verbatim>\<open>Map\<close> are distinct.
\<close>

type_synonym 'v jsmap = "(string \<times> 'v) list"

abbreviation Map_get :: "'v jsmap \<Rightarrow> string \<Rightarrow> 'v option" where
  "Map_get m k \<equiv> map_of m k"

abbreviation Map_set :: "string \<Rightarrow> 'v \<Rightarrow> 'v jsmap \<Rightarrow> 'v jsmap" where
  "Map_set k v m \<equiv> AList.update k v m"

abbreviation Map_delete :: "string \<Rightarrow> 'v jsmap \<Rightarrow> 'v jsmap" where
  "Map_delete k m \<equiv> AList.delete k m"

text \<open>\<^verbatim>\<open>map.delete(x)\<close> where \<^verbatim>\<open>x\<close> may be \<^verbatim>\<open>null\<close>: no entry has the key \<^verbatim>\<open>null\<close>.\<close>

fun Map_delete_nullable :: "string option \<Rightarrow> 'v jsmap \<Rightarrow> 'v jsmap" where
  "Map_delete_nullable None m = m"
| "Map_delete_nullable (Some k) m = Map_delete k m"

subsection \<open>Strings\<close>

text \<open>\<^verbatim>\<open>String.prototype.substring(start, end)\<close>: both indices are clamped to the length, and
  swapped when the first is larger.\<close>

definition substring :: "nat \<Rightarrow> nat \<Rightarrow> string \<Rightarrow> string" where
  "substring a b s =
     (let a' = min a (length s); b' = min b (length s);
          lo = min a' b'; hi = max a' b'
      in take (hi - lo) (drop lo s))"

text \<open>\<^verbatim>\<open>toUpperCase\<close> on the characters \<^verbatim>\<open>Number.prototype.toString(36)\<close> can produce
  (digits, lower-case letters, the point and the minus sign).\<close>

definition toUpperChar :: "char \<Rightarrow> char" where
  "toUpperChar c =
     (let n = (of_char c :: nat) in if 97 \<le> n \<and> n \<le> 122 then char_of (n - 32) else c)"

definition toUpperCase :: "string \<Rightarrow> string" where
  "toUpperCase s = map toUpperChar s"

subsection \<open>The game record and the manager\<close>

datatype status = Waiting | Playing

text \<open>
  The object literal of \<^verbatim>\<open>createGame\<close>; \<open>game_id\<close> is its field \<^verbatim>\<open>id\<close> and
  \<open>leftPaddle_y\<close> is \<^verbatim>\<open>leftPaddle.y\<close>. The fields \<^verbatim>\<open>host\<close> and \<^verbatim>\<open>guest\<close> hold a socket
  identifier or \<^verbatim>\<open>null\<close>; both are nullable here, so that a game having a host is a fact to
  prove of the handlers and not of the type. The status is one of the strings
  \<^verbatim>\<open>'waiting'\<close> and \<^verbatim>\<open>'playing'\<close>.
\<close>

record game =
  game_id :: string
  host :: "string option"
  hostName :: string
  guest :: "string option"
  guestName :: "string option"
  ball :: jsval
  leftScore :: jsval
  rightScore :: jsval
  leftPaddle_y :: jsval
  rightPaddle_y :: jsval
  remainingTime :: jsval
  lastActivity :: int
  status :: status

record GameManager =
  activeGames :: "game jsmap"
  playerSockets :: "string jsmap"

definition new_GameManager :: GameManager where
  "new_GameManager = \<lparr> activeGames = [], playerSockets = [] \<rparr>"

text \<open>
  \<^verbatim>\<open>generateGameId\<close>: the argument \<open>r\<close> is the string \<^verbatim>\<open>Math.random().toString(36)\<close>, the
  base-36 rendering of the draw (\<^verbatim>\<open>"0"\<close> for the draw 0, \<^verbatim>\<open>"0.i"\<close> for the draw 0.5,
  otherwise \<^verbatim>\<open>"0."\<close> followed by the base-36 digits of the fraction).
\<close>

definition generateGameId :: "string \<Rightarrow> string" where
  "generateGameId r = toUpperCase (substring 2 8 r)"

definition createGame :: "string \<Rightarrow> string \<Rightarrow> string \<Rightarrow> int \<Rightarrow> GameManager \<Rightarrow> game \<times> GameManager" where
  "createGame hostId hostName' r now m =
     (let gameId = generateGameId r;
          gameData = \<lparr> game_id = gameId, host = Some hostId, hostName = hostName',
                       guest = None, guestName = None, ball = JNull,
                       leftScore = JNum 0, rightScore = JNum 0,
                       leftPaddle_y = JNum 0, rightPaddle_y = JNum 0,
                       remainingTime = JNum 120, lastActivity = now, status = Waiting \<rparr>
      in (gameData,
          m\<lparr> activeGames := Map_set gameId gameData (activeGames m),
             playerSockets := Map_set hostId gameId (playerSockets m) \<rparr>))"

text \<open>\<^verbatim>\<open>joinGame\<close> returns \<^verbatim>\<open>null\<close> (here \<open>None\<close>) or the game it has updated.\<close>

definition joinGame :: "string \<Rightarrow> string \<Rightarrow> string \<Rightarrow> int \<Rightarrow> GameManager \<Rightarrow> (game \<times> GameManager) option" where
  "joinGame gameId guestId guestName' now m =
     (case Map_get (activeGames m) gameId of
        None \<Rightarrow> None
      | Some g \<Rightarrow>
          if truthy (guest g) then None
          else
            let g' = g\<lparr> guest := Some guestId, guestName := Some guestName',
                       status := Playing, lastActivity := now \<rparr>
            in Some (g', m\<lparr> activeGames := Map_set gameId g' (activeGames m),
                            playerSockets := Map_set guestId gameId (playerSockets m) \<rparr>))"

definition removeGame :: "string \<Rightarrow> GameManager \<Rightarrow> GameManager" where
  "removeGame gameId m =
     (case Map_get (activeGames m) gameId of
        None \<Rightarrow> m
      | Some g \<Rightarrow>
          let ps1 = Map_delete_nullable (host g) (playerSockets m);
              ps2 = (if truthy (guest g) then Map_delete_nullable (guest g) ps1 else ps1)
          in m\<lparr> activeGames := Map_delete gameId (activeGames m), playerSockets := ps2 \<rparr>)"

definition inactiveThreshold :: int where
  "inactiveThreshold = 1000 * 60 * 5"

text \<open>
  The \<^verbatim>\<open>for ... of\<close> loop of \<^verbatim>\<open>cleanupInactiveGames\<close> visits the entries of the live
  \<^verbatim>\<open>Map\<close> in insertion order. Its body only deletes the entry being visited and changes
  no game object, so the entries still to visit are those of the table at the start.
\<close>

fun cleanupLoop :: "int \<Rightarrow> game jsmap \<Rightarrow> GameManager \<Rightarrow> GameManager" where
  "cleanupLoop now [] m = m"
| "cleanupLoop now ((gameId, g) # rest) m =
     cleanupLoop now rest
       (if now - lastActivity g > inactiveThreshold then removeGame gameId m else m)"

definition cleanupInactiveGames :: "int \<Rightarrow> GameManager \<Rightarrow> GameManager" where
  "cleanupInactiveGames now m = cleanupLoop now (activeGames m) m"

definition getAvailableGames :: "GameManager \<Rightarrow> jsval list" where
  "getAvailableGames m =
     map (\<lambda>g. JObj [(''id'', JStr (game_id g)),
                    (''name'', JStr (hostName g @ [CHR 0x27] @ ''s Game'')),
                    (''createdAt'', JNum (lastActivity g))])
       (filter (\<lambda>g. status g = Waiting) (map snd (activeGames m)))"

subsection \<open>The event handlers\<close>

text \<open>
  What a handler does on the transport: \<^verbatim>\<open>io.to(room).emit(event, payload)\<close> (the room is
  a socket id or a game id; it is \<^verbatim>\<open>null\<close> when the handler passes an empty guest slot),
  \<^verbatim>\<open>callback(reply)\<close> to the socket that sent the request, and \<^verbatim>\<open>socket.join(room)\<close>.
  An emit without payload carries \<open>JUndefined\<close>.
\<close>

datatype action =
    Emit "string option" string jsval
  | Callback string jsval
  | SocketJoin string string

text \<open>
  In every handler \<open>sid\<close> is \<^verbatim>\<open>socket.id\<close> of the connection the event came from. The
  arguments of a handler are the fields its parameter pattern takes from the payload, and
  a request that expects a reply comes with its callback. The test \<^verbatim>\<open>if (!gameId) return\<close>
  on the membership entry is false for a missing entry and for the empty identifier.
\<close>

definition on_pong :: "string \<Rightarrow> int \<Rightarrow> GameManager \<Rightarrow> GameManager \<times> action list" where
  "on_pong sid now m =
     (case Map_get (playerSockets m) sid of
        None \<Rightarrow> (m, [])
      | Some gameId \<Rightarrow>
          if gameId = [] then (m, [])
          else (case Map_get (activeGames m) gameId of
                  None \<Rightarrow> (m, [])
                | Some g \<Rightarrow>
                    (m\<lparr> activeGames := Map_set gameId (g\<lparr> lastActivity := now \<rparr>) (activeGames m) \<rparr>, [])))"

definition on_createGame :: "string \<Rightarrow> string \<Rightarrow> string \<Rightarrow> int \<Rightarrow> GameManager \<Rightarrow> GameManager \<times> action list" where
  "on_createGame sid playerName r now m =
     (let (g, m') = createGame sid playerName r now m
      in (m', [SocketJoin sid (game_id g),
               Callback sid (JObj [(''status'', JStr ''success''), (''gameId'', JStr (game_id g))])]))"

definition on_joinGame :: "string \<Rightarrow> string \<Rightarrow> string \<Rightarrow> int \<Rightarrow> GameManager \<Rightarrow> GameManager \<times> action list" where
  "on_joinGame sid gameId playerName now m =
     (case joinGame gameId sid playerName now m of
        None \<Rightarrow>
          (m, [Callback sid (JObj [(''status'', JStr ''error''),
                                   (''message'', JStr ''Game not found or full'')])])
      | Some (g, m') \<Rightarrow>
          (m', [SocketJoin sid gameId,
                Emit (host g) ''gameStart'' (JObj [(''rightPlayer'', JStr playerName)]),
                Callback sid (JObj [(''status'', JStr ''success'')])]))"

definition on_cancelGame :: "string \<Rightarrow> string \<Rightarrow> GameManager \<Rightarrow> GameManager \<times> action list" where
  "on_cancelGame sid gameId m =
     (case Map_get (activeGames m) gameId of
        None \<Rightarrow> (m, [])
      | Some g \<Rightarrow>
          if host g = Some sid
          then (removeGame gameId m,
                if truthy (guest g) then [Emit (guest g) ''gameCancelled'' JUndefined] else [])
          else (m, []))"

definition on_paddleMove :: "string \<Rightarrow> jsval \<Rightarrow> int \<Rightarrow> GameManager \<Rightarrow> GameManager \<times> action list" where
  "on_paddleMove sid y now m =
     (case Map_get (playerSockets m) sid of
        None \<Rightarrow> (m, [])
      | Some gameId \<Rightarrow>
          if gameId = [] then (m, [])
          else (case Map_get (activeGames m) gameId of
                  None \<Rightarrow> (m, [])
                | Some g \<Rightarrow>
                    let g1 = g\<lparr> lastActivity := now \<rparr> in
                    if Some sid = host g1
                    then (m\<lparr> activeGames := Map_set gameId (g1\<lparr> leftPaddle_y := y \<rparr>) (activeGames m) \<rparr>,
                          [Emit (guest g1) ''paddleMove'' (JObj [(''y'', y)])])
                    else if Some sid = guest g1
                    then (m\<lparr> activeGames := Map_set gameId (g1\<lparr> rightPaddle_y := y \<rparr>) (activeGames m) \<rparr>,
                          [Emit (host g1) ''paddleMove'' (JObj [(''y'', y)])])
                    else (m\<lparr> activeGames := Map_set gameId g1 (activeGames m) \<rparr>, [])))"

definition on_ballUpdate :: "string \<Rightarrow> jsval \<Rightarrow> int \<Rightarrow> GameManager \<Rightarrow> GameManager \<times> action list" where
  "on_ballUpdate sid ball' now m =
     (case Map_get (playerSockets m) sid of
        None \<Rightarrow> (m, [])
      | Some gameId \<Rightarrow>
          if gameId = [] then (m, [])
          else (case Map_get (activeGames m) gameId of
                  None \<Rightarrow> (m, [])
                | Some g \<Rightarrow>
                    if Some sid \<noteq> host g then (m, [])
                    else (m\<lparr> activeGames :=
                               Map_set gameId (g\<lparr> ball := ball', lastActivity := now \<rparr>) (activeGames m) \<rparr>,
                          [Emit (guest g) ''ballUpdate'' (JObj [(''ball'', ball')])])))"

definition on_scoreUpdate :: "string \<Rightarrow> jsval \<Rightarrow> jsval \<Rightarrow> int \<Rightarrow> GameManager \<Rightarrow> GameManager \<times> action list" where
  "on_scoreUpdate sid leftScore' rightScore' now m =
     (case Map_get (playerSockets m) sid of
        None \<Rightarrow> (m, [])
      | Some gameId \<Rightarrow>
          if gameId = [] then (m, [])
          else (case Map_get (activeGames m) gameId of
                  None \<Rightarrow> (m, [])
                | Some g \<Rightarrow>
                    if Some sid \<noteq> host g then (m, [])
                    else (m\<lparr> activeGames :=
                               Map_set gameId (g\<lparr> leftScore := leftScore', rightScore := rightScore',
                                                  lastActivity := now \<rparr>) (activeGames m) \<rparr>,
                          [Emit (guest g) ''scoreUpdate''
                             (JObj [(''leftScore'', leftScore'), (''rightScore'', rightScore')])])))"

definition on_timerUpdate :: "string \<Rightarrow> jsval \<Rightarrow> int \<Rightarrow> GameManager \<Rightarrow> GameManager \<times> action list" where
  "on_timerUpdate sid remainingTime' now m =
     (case Map_get (playerSockets m) sid of
        None \<Rightarrow> (m, [])
      | Some gameId \<Rightarrow>
          if gameId = [] then (m, [])
          else (case Map_get (activeGames m) gameId of
                  None \<Rightarrow> (m, [])
                | Some g \<Rightarrow>
                    if Some sid \<noteq> host g then (m, [])
                    else (m\<lparr> activeGames :=
                               Map_set gameId (g\<lparr> remainingTime := remainingTime', lastActivity := now \<rparr>)
                                 (activeGames m) \<rparr>,
                          [Emit (guest g) ''timerUpdate'' (JObj [(''remainingTime'', remainingTime')])])))"

definition on_gameEnd :: "string \<Rightarrow> GameManager \<Rightarrow> GameManager \<times> action list" where
  "on_gameEnd sid m =
     (case Map_get (playerSockets m) sid of
        None \<Rightarrow> (m, [])
      | Some gameId \<Rightarrow>
          if gameId = [] then (m, [])
          else (case Map_get (activeGames m) gameId of
                  None \<Rightarrow> (m, [])
                | Some g \<Rightarrow>
                    if Some sid \<noteq> host g then (m, [])
                    else (removeGame gameId m, [Emit (Some gameId) ''gameEnd'' JUndefined])))"

definition on_requestGameList :: "string \<Rightarrow> GameManager \<Rightarrow> GameManager \<times> action list" where
  "on_requestGameList sid m = (m, [Callback sid (JArr (getAvailableGames m))])"

text \<open>
  The \<^verbatim>\<open>disconnect\<close> handler. The last statement, \<^verbatim>\<open>playerSockets.delete(socket.id)\<close>, is
  reached on the host branch, on the guest branch and when the socket is neither.
\<close>

definition on_disconnect :: "string \<Rightarrow> GameManager \<Rightarrow> GameManager \<times> action list" where
  "on_disconnect sid m =
     (case Map_get (playerSockets m) sid of
        None \<Rightarrow> (m, [])
      | Some gameId \<Rightarrow>
          if gameId = [] then (m, [])
          else (case Map_get (activeGames m) gameId of
                  None \<Rightarrow> (m, [])
                | Some g \<Rightarrow>
                    let (m1, out) =
                      (if Some sid = host g
                       then (removeGame gameId m,
                             if truthy (guest g) then [Emit (guest g) ''hostDisconnected'' JUndefined] else [])
                       else if Some sid = guest g
                       then (m\<lparr> activeGames :=
                                  Map_set gameId (g\<lparr> guest := None, guestName := None, status := Waiting \<rparr>)
                                    (activeGames m) \<rparr>,
                             [Emit (host g) ''guestDisconnected'' JUndefined])
                       else (m, []))
                    in (m1\<lparr> playerSockets := Map_delete sid (playerSockets m1) \<rparr>, out)))"

subsection \<open>Runs of the server\<close>

text \<open>
  The events the server reacts to: the messages of a connection, its closure, and the
  tick of the cleanup timer. \<open>CreateGame sid playerName r\<close> carries the rendering \<open>r\<close> of
  the random draw that \<^verbatim>\<open>generateGameId\<close> makes while the event is handled.
\<close>

datatype event =
    Pong string
  | CreateGame string string string
  | JoinGame string string string
  | CancelGame string string
  | PaddleMove string jsval
  | BallUpdate string jsval
  | ScoreUpdate string jsval jsval
  | TimerUpdate string jsval
  | GameEnd string
  | RequestGameList string
  | Disconnect string
  | CleanupTick

fun step :: "int \<Rightarrow> event \<Rightarrow> GameManager \<Rightarrow> GameManager \<times> action list" where
  "step now (Pong sid) m = on_pong sid now m"
| "step now (CreateGame sid playerName r) m = on_createGame sid playerName r now m"
| "step now (JoinGame sid gameId playerName) m = on_joinGame sid gameId playerName now m"
| "step now (CancelGame sid gameId) m = on_cancelGame sid gameId m"
| "step now (PaddleMove sid y) m = on_paddleMove sid y now m"
| "step now (BallUpdate sid b) m = on_ballUpdate sid b now m"
| "step now (ScoreUpdate sid l r) m = on_scoreUpdate sid l r now m"
| "step now (TimerUpdate sid t) m = on_timerUpdate sid t now m"
| "step now (GameEnd sid) m = on_gameEnd sid m"
| "step now (RequestGameList sid) m = on_requestGameList sid m"
| "step now (Disconnect sid) m = on_disconnect sid m"
| "step now CleanupTick m = (cleanupInactiveGames now m, [])"

text \<open>A run: the events in the order the event loop handles them, each with the value
  \<^verbatim>\<open>Date.now()\<close> has while it is handled.\<close>

fun exec :: "(int \<times> event) list \<Rightarrow> GameManager \<Rightarrow> GameManager" where
  "exec [] m = m"
| "exec ((now, e) # es) m = exec es (fst (step now e m))"

text \<open>Socket.IO gives every connection a non-empty identifier.\<close>

fun valid_event :: "event \<Rightarrow> bool" where
  "valid_event (Pong sid) = (sid \<noteq> [])"
| "valid_event (CreateGame sid playerName r) = (sid \<noteq> [])"
| "valid_event (JoinGame sid gameId playerName) = (sid \<noteq> [])"
| "valid_event (CancelGame sid gameId) = (sid \<noteq> [])"
| "valid_event (PaddleMove sid y) = (sid \<noteq> [])"
| "valid_event (BallUpdate sid b) = (sid \<noteq> [])"
| "valid_event (ScoreUpdate sid l r) = (sid \<noteq> [])"
| "valid_event (TimerUpdate sid t) = (sid \<noteq> [])"
| "valid_event (GameEnd sid) = (sid \<noteq> [])"
| "valid_event (RequestGameList sid) = (sid \<noteq> [])"
| "valid_event (Disconnect sid) = (sid \<noteq> [])"
| "valid_event CleanupTick = True"

subsection \<open>Properties of a game record\<close>

text \<open>The number of hosts and of guests a game record holds.\<close>

definition host_count :: "game \<Rightarrow> nat" where
  "host_count g = (case host g of None \<Rightarrow> 0 | Some h \<Rightarrow> 1)"

definition guest_count :: "game \<Rightarrow> nat" where
  "guest_count g = (case guest g of None \<Rightarrow> 0 | Some c \<Rightarrow> 1)"



subsection \<open>Predicates used in the statements\<close>

text \<open>
  A property of game records that holds for every game in the table.
\<close>

definition games_all :: "(game \<Rightarrow> bool) \<Rightarrow> GameManager \<Rightarrow> bool" where
  "games_all P m = (\<forall>(gameId, g) \<in> set (activeGames m). P g)"

text \<open>
  A game has exactly one host and at most one guest.
\<close>

definition one_host_one_slot :: "game \<Rightarrow> bool" where
  "one_host_one_slot g = (host_count g = 1 \<and> guest_count g \<le> 1)"

text \<open>
  A game whose status is \<^verbatim>\<open>'playing'\<close> has an occupied guest slot, in the sense of the
  test \<^verbatim>\<open>if (game.guest)\<close>.
\<close>

definition playing_has_guest :: "game \<Rightarrow> bool" where
  "playing_has_guest g = (status g = Playing \<longrightarrow> truthy (guest g))"

text \<open>
  The two replies of the \<^verbatim>\<open>joinGame\<close> handler.
\<close>

definition join_error :: jsval where
  "join_error = JObj [(''status'', JStr ''error''), (''message'', JStr ''Game not found or full'')]"

definition join_success :: jsval where
  "join_success = JObj [(''status'', JStr ''success'')]"

text \<open>
  The connection \<open>sid\<close> is the registered host of its current session: the membership
  index binds it to a game of the table whose \<^verbatim>\<open>host\<close> field is \<open>sid\<close>.
\<close>

definition is_host_of_current :: "GameManager \<Rightarrow> string \<Rightarrow> bool" where
  "is_host_of_current m sid =
     (case Map_get (playerSockets m) sid of
        None \<Rightarrow> False
      | Some gameId \<Rightarrow>
          (case Map_get (activeGames m) gameId of
             None \<Rightarrow> False
           | Some g \<Rightarrow> host g = Some sid))"

section \<open>Facts about the tables\<close>

text \<open>
  Deleting a key that is absent changes nothing.
\<close>

lemma Map_delete_absent: "Map_get al k = None \<Longrightarrow> Map_delete k al = al"
  by (simp add: map_of_eq_None_iff)

text \<open>
  The entries after \<^verbatim>\<open>set\<close> are the new entry and entries that were there; the entries
  after \<^verbatim>\<open>delete\<close> were there.
\<close>

lemma in_Map_setD: "(k', v') \<in> set (Map_set k v al) \<Longrightarrow> (k', v') = (k, v) \<or> (k', v') \<in> set al"
  by (induction al) (auto split: if_splits)

lemma in_Map_deleteD: "(k', v') \<in> set (Map_delete k al) \<Longrightarrow> (k', v') \<in> set al"
  by (simp add: AList.delete_eq)

lemma Map_get_delete_nullable:
  "Map_get (Map_delete_nullable x al) k = (if x = Some k then None else Map_get al k)"
  by (cases x) (auto simp: delete_conv')

text \<open>
  With distinct keys an entry is determined by its key, and filtering on the values
  filters the lookups.
\<close>

lemma distinct_keys_unique:
  "distinct (map fst al) \<Longrightarrow> (k, g) \<in> set al \<Longrightarrow> (k, g') \<in> set al \<Longrightarrow> g = g'"
  by (metis map_of_is_SomeI option.inject)

lemma Map_get_filter_values:
  "distinct (map fst al) \<Longrightarrow>
     Map_get (filter (\<lambda>(k, v). P v) al) k =
       (case Map_get al k of None \<Rightarrow> None | Some v \<Rightarrow> if P v then Some v else None)"
proof (induction al)
  case Nil
  show ?case by simp
next
  case (Cons x al)
  obtain k' v' where x: "x = (k', v')" by (cases x)
  from Cons.prems have notin: "k' \<notin> fst ` set al" and d: "distinct (map fst al)"
    by (simp_all add: x)
  have none: "Map_get al k' = None"
    using notin by (simp add: map_of_eq_None_iff)
  have none': "Map_get (filter (\<lambda>(k, v). P v) al) k' = None"
    using notin by (auto simp: map_of_eq_None_iff)
  show ?case
    by (simp add: x Cons.IH[OF d] none none')
qed

subsection \<open>\<^verbatim>\<open>removeGame\<close> and the cleanup loop\<close>

text \<open>
  On the game table \<^verbatim>\<open>removeGame\<close> is the deletion of the key, whether the key is
  present or not.
\<close>

lemma activeGames_removeGame: "activeGames (removeGame k m) = Map_delete k (activeGames m)"
  by (simp add: removeGame_def Let_def Map_delete_absent split: option.splits)

lemma removeGame_absent: "Map_get (activeGames m) gameId = None \<Longrightarrow> removeGame gameId m = m"
  by (simp add: removeGame_def)

lemma removeGame_lookup [simp]: "Map_get (activeGames (removeGame gameId m)) gameId = None"
  by (simp add: activeGames_removeGame delete_conv')

lemma removeGame_other: "k \<noteq> gameId \<Longrightarrow>
    Map_get (activeGames (removeGame gameId m)) k = Map_get (activeGames m) k"
  by (simp add: activeGames_removeGame delete_conv')

lemma distinct_removeGame:
  "distinct (map fst (activeGames m)) \<Longrightarrow> distinct (map fst (activeGames (removeGame k m)))"
  by (simp add: activeGames_removeGame distinct_delete)

text \<open>
  The loop deletes the keys that occur in the visited entries with an idle game; when the
  visited entries are those of the table itself and the keys are distinct, it filters the
  table on \<^verbatim>\<open>lastActivity\<close>.
\<close>

lemma activeGames_cleanupLoop:
  "activeGames (cleanupLoop now xs m) =
     filter (\<lambda>(k, g). \<not> (\<exists>g'. (k, g') \<in> set xs \<and> now - lastActivity g' > inactiveThreshold))
       (activeGames m)"
proof (induction xs arbitrary: m)
  case Nil
  show ?case by simp
next
  case (Cons x xs)
  obtain k g where x: "x = (k, g)" by (cases x)
  show ?case
    unfolding x
    by (auto simp: Cons.IH activeGames_removeGame AList.delete_eq intro!: filter_cong)
qed

lemma cleanup_activeGames:
  assumes "distinct (map fst (activeGames m))"
  shows "activeGames (cleanupInactiveGames now m) =
           filter (\<lambda>(gameId, g). \<not> lastActivity g < now - inactiveThreshold) (activeGames m)"
proof -
  have "filter (\<lambda>(k, g). \<not> (\<exists>g'. (k, g') \<in> set (activeGames m) \<and> now - lastActivity g' > inactiveThreshold))
          (activeGames m) =
        filter (\<lambda>(gameId, g). \<not> lastActivity g < now - inactiveThreshold) (activeGames m)"
  proof (rule filter_cong[OF refl])
    fix x assume xin: "x \<in> set (activeGames m)"
    obtain k g where x: "x = (k, g)" by (cases x)
    have "(\<exists>g'. (k, g') \<in> set (activeGames m) \<and> now - lastActivity g' > inactiveThreshold)
            \<longleftrightarrow> now - lastActivity g > inactiveThreshold"
      using distinct_keys_unique[OF assms] xin x by blast
    then show "(case x of (k, g) \<Rightarrow> \<not> (\<exists>g'. (k, g') \<in> set (activeGames m) \<and> now - lastActivity g' > inactiveThreshold))
        = (case x of (gameId, g) \<Rightarrow> \<not> lastActivity g < now - inactiveThreshold)"
      unfolding x by auto
  qed
  then show ?thesis
    by (simp add: cleanupInactiveGames_def activeGames_cleanupLoop)
qed

lemma cleanup_lookup:
  assumes "distinct (map fst (activeGames m))"
  shows "Map_get (activeGames (cleanupInactiveGames now m)) k =
           (case Map_get (activeGames m) k of
              None \<Rightarrow> None
            | Some g \<Rightarrow> if lastActivity g < now - inactiveThreshold then None else Some g)"
  unfolding cleanup_activeGames[OF assms]
  by (simp add: Map_get_filter_values[OF assms] split: option.splits)

text \<open>
  The keys of the game table are distinct in every state the server reaches.
\<close>

lemma step_distinct_keys:
  assumes "distinct (map fst (activeGames m))"
  shows "distinct (map fst (activeGames (fst (step now e m))))"
proof (cases e)
  case (Pong sid)
  then show ?thesis using assms
    by (auto simp: on_pong_def distinct_update split: option.splits)
next
  case (CreateGame sid playerName r)
  then show ?thesis using assms
    by (auto simp: on_createGame_def createGame_def Let_def distinct_update)
next
  case (JoinGame sid gameId playerName)
  then show ?thesis using assms
    by (auto simp: on_joinGame_def joinGame_def Let_def distinct_update split: option.splits)
next
  case (CancelGame sid gameId)
  then show ?thesis using assms
    by (auto simp: on_cancelGame_def distinct_removeGame split: option.splits)
next
  case (PaddleMove sid y)
  then show ?thesis using assms
    by (auto simp: on_paddleMove_def Let_def distinct_update split: option.splits)
next
  case (BallUpdate sid b)
  then show ?thesis using assms
    by (auto simp: on_ballUpdate_def distinct_update split: option.splits)
next
  case (ScoreUpdate sid l r)
  then show ?thesis using assms
    by (auto simp: on_scoreUpdate_def distinct_update split: option.splits)
next
  case (TimerUpdate sid t)
  then show ?thesis using assms
    by (auto simp: on_timerUpdate_def distinct_update split: option.splits)
next
  case (GameEnd sid)
  then show ?thesis using assms
    by (auto simp: on_gameEnd_def distinct_removeGame split: option.splits)
next
  case (RequestGameList sid)
  then show ?thesis using assms by (simp add: on_requestGameList_def)
next
  case (Disconnect sid)
  then show ?thesis using assms
    by (auto simp: on_disconnect_def distinct_update distinct_removeGame split: option.splits)
next
  case CleanupTick
  then show ?thesis using assms
    by (simp add: cleanup_activeGames distinct_map_filter)
qed

lemma exec_distinct_keys:
  "distinct (map fst (activeGames m)) \<Longrightarrow> distinct (map fst (activeGames (exec evs m)))"
  by (induction evs arbitrary: m) (auto simp: step_distinct_keys)

lemma reachable_distinct_keys:
  "distinct (map fst (activeGames (exec evs new_GameManager)))"
  by (rule exec_distinct_keys) (simp add: new_GameManager_def)

subsection \<open>Properties of all games of the table\<close>

text \<open>
  How a property of all games is carried through the updates of the table.
\<close>

lemma games_all_Map_set:
  "games_all P m \<Longrightarrow> P g \<Longrightarrow> games_all P (m\<lparr> activeGames := Map_set k g (activeGames m) \<rparr>)"
  by (auto simp: games_all_def dest!: in_Map_setD)

lemma games_all_playerSockets [simp]:
  "games_all P (m\<lparr> playerSockets := ps \<rparr>) = games_all P m"
  by (simp add: games_all_def)

lemma games_all_lookup: "games_all P m \<Longrightarrow> Map_get (activeGames m) k = Some g \<Longrightarrow> P g"
  by (auto simp: games_all_def dest!: map_of_SomeD)

lemma games_all_removeGame: "games_all P m \<Longrightarrow> games_all P (removeGame k m)"
  by (auto simp: games_all_def activeGames_removeGame dest!: in_Map_deleteD)

lemma games_all_cleanup: "games_all P m \<Longrightarrow> games_all P (cleanupInactiveGames now m)"
  by (auto simp: games_all_def cleanupInactiveGames_def activeGames_cleanupLoop)

text \<open>
  Every handler keeps the host of every game: the field is written once, by
  \<^verbatim>\<open>createGame\<close>.
\<close>

lemma one_host_one_slot_iff: "one_host_one_slot g \<longleftrightarrow> host g \<noteq> None"
  by (auto simp: one_host_one_slot_def host_count_def guest_count_def split: option.splits)

lemma step_one_host:
  assumes "games_all one_host_one_slot m"
  shows "games_all one_host_one_slot (fst (step now e m))"
proof (cases e)
  case (Pong sid)
  then show ?thesis using assms
    by (auto simp: on_pong_def one_host_one_slot_iff split: option.splits
        intro!: games_all_Map_set dest: games_all_lookup)
next
  case (CreateGame sid playerName r)
  then show ?thesis using assms
    by (auto simp: on_createGame_def createGame_def Let_def one_host_one_slot_iff
        intro!: games_all_Map_set)
next
  case (JoinGame sid gameId playerName)
  then show ?thesis using assms
    by (auto simp: on_joinGame_def joinGame_def Let_def one_host_one_slot_iff
        split: option.splits if_splits intro!: games_all_Map_set dest: games_all_lookup)
next
  case (CancelGame sid gameId)
  then show ?thesis using assms
    by (auto simp: on_cancelGame_def split: option.splits intro!: games_all_removeGame)
next
  case (PaddleMove sid y)
  then show ?thesis using assms
    by (auto simp: on_paddleMove_def Let_def one_host_one_slot_iff split: option.splits
        intro!: games_all_Map_set dest: games_all_lookup)
next
  case (BallUpdate sid b)
  then show ?thesis using assms
    by (auto simp: on_ballUpdate_def one_host_one_slot_iff split: option.splits
        intro!: games_all_Map_set dest: games_all_lookup)
next
  case (ScoreUpdate sid l r)
  then show ?thesis using assms
    by (auto simp: on_scoreUpdate_def one_host_one_slot_iff split: option.splits
        intro!: games_all_Map_set dest: games_all_lookup)
next
  case (TimerUpdate sid t)
  then show ?thesis using assms
    by (auto simp: on_timerUpdate_def one_host_one_slot_iff split: option.splits
        intro!: games_all_Map_set dest: games_all_lookup)
next
  case (GameEnd sid)
  then show ?thesis using assms
    by (auto simp: on_gameEnd_def split: option.splits intro!: games_all_removeGame)
next
  case (RequestGameList sid)
  then show ?thesis using assms by (simp add: on_requestGameList_def)
next
  case (Disconnect sid)
  then show ?thesis using assms
    by (auto simp: on_disconnect_def one_host_one_slot_iff split: option.splits
        intro!: games_all_Map_set games_all_removeGame dest: games_all_lookup)
next
  case CleanupTick
  then show ?thesis using assms by (simp add: games_all_cleanup)
qed

lemma exec_one_host:
  "games_all one_host_one_slot m \<Longrightarrow> games_all one_host_one_slot (exec evs m)"
  by (induction evs arbitrary: m) (auto simp: step_one_host)

text \<open>
  Connections have non-empty identifiers, so a game that is \<^verbatim>\<open>'playing'\<close> has a guest
  that the test \<^verbatim>\<open>if (game.guest)\<close> sees.
\<close>

lemma step_playing_has_guest:
  assumes "games_all playing_has_guest m" and "valid_event e"
  shows "games_all playing_has_guest (fst (step now e m))"
proof (cases e)
  case (Pong sid)
  then show ?thesis using assms
    by (auto simp: on_pong_def playing_has_guest_def split: option.splits
        intro!: games_all_Map_set dest: games_all_lookup)
next
  case (CreateGame sid playerName r)
  then show ?thesis using assms
    by (auto simp: on_createGame_def createGame_def Let_def playing_has_guest_def
        intro!: games_all_Map_set)
next
  case (JoinGame sid gameId playerName)
  then show ?thesis using assms
    by (auto simp: on_joinGame_def joinGame_def Let_def playing_has_guest_def
        split: option.splits if_splits intro!: games_all_Map_set)
next
  case (CancelGame sid gameId)
  then show ?thesis using assms
    by (auto simp: on_cancelGame_def split: option.splits intro!: games_all_removeGame)
next
  case (PaddleMove sid y)
  then show ?thesis using assms
    by (auto simp: on_paddleMove_def Let_def playing_has_guest_def split: option.splits
        intro!: games_all_Map_set dest: games_all_lookup)
next
  case (BallUpdate sid b)
  then show ?thesis using assms
    by (auto simp: on_ballUpdate_def playing_has_guest_def split: option.splits
        intro!: games_all_Map_set dest: games_all_lookup)
next
  case (ScoreUpdate sid l r)
  then show ?thesis using assms
    by (auto simp: on_scoreUpdate_def playing_has_guest_def split: option.splits
        intro!: games_all_Map_set dest: games_all_lookup)
next
  case (TimerUpdate sid t)
  then show ?thesis using assms
    by (auto simp: on_timerUpdate_def playing_has_guest_def split: option.splits
        intro!: games_all_Map_set dest: games_all_lookup)
next
  case (GameEnd sid)
  then show ?thesis using assms
    by (auto simp: on_gameEnd_def split: option.splits intro!: games_all_removeGame)
next
  case (RequestGameList sid)
  then show ?thesis using assms by (simp add: on_requestGameList_def)
next
  case (Disconnect sid)
  then show ?thesis using assms
    by (auto simp: on_disconnect_def playing_has_guest_def split: option.splits
        intro!: games_all_Map_set games_all_removeGame dest: games_all_lookup)
next
  case CleanupTick
  then show ?thesis using assms by (simp add: games_all_cleanup)
qed

lemma exec_playing_has_guest:
  "games_all playing_has_guest m \<Longrightarrow> \<forall>(now, e) \<in> set evs. valid_event e \<Longrightarrow>
     games_all playing_has_guest (exec evs m)"
  by (induction evs arbitrary: m) (auto simp: step_playing_has_guest)

subsection \<open>The join handler and concrete identifiers\<close>

lemma joinGame_None_iff:
  "joinGame gameId sid playerName now m = None \<longleftrightarrow>
     (Map_get (activeGames m) gameId = None \<or>
      (\<exists>g. Map_get (activeGames m) gameId = Some g \<and> truthy (guest g)))"
  by (auto simp: joinGame_def Let_def split: option.splits)

lemma on_joinGame_reply:
  "on_joinGame sid gameId playerName now m =
     (case joinGame gameId sid playerName now m of
        None \<Rightarrow> (m, [Callback sid join_error])
      | Some (g, m') \<Rightarrow>
          (m', [SocketJoin sid gameId,
                Emit (host g) ''gameStart'' (JObj [(''rightPlayer'', JStr playerName)]),
                Callback sid join_success]))"
  by (simp add: on_joinGame_def join_error_def join_success_def split: option.splits)

text \<open>
  Two draws used in the examples below: the renderings \<^verbatim>\<open>0.g7k2m9xq1\<close> and
  \<^verbatim>\<open>0.q4w8ztabc\<close>.
\<close>

lemma gen_G7K2M9: "generateGameId ''0.g7k2m9xq1'' = ''G7K2M9''"
  by code_simp

lemma gen_Q4W8ZT: "generateGameId ''0.q4w8ztabc'' = ''Q4W8ZT''"
  by code_simp

section \<open>The claims\<close>

subsection \<open>C1: one host and at most one guest\<close>

text \<open>
  Claim C1. After every sequence of events handled by the server (creation, join,
  cancellation, end of game, departure of the host or of the guest, relay messages,
  heartbeat replies and idle sweeps, in any order and with any clock values), every
  session present in the session table has exactly one host (its \<^verbatim>\<open>host\<close> field is not
  \<^verbatim>\<open>null\<close>) and at most one guest.
\<close>

theorem every_session_one_host_at_most_one_guest:
  "\<forall>(gameId, g) \<in> set (activeGames (exec evs new_GameManager)).
      host_count g = 1 \<and> guest_count g \<le> 1"
proof -
  have "games_all one_host_one_slot new_GameManager"
    by (simp add: games_all_def new_GameManager_def)
  then have "games_all one_host_one_slot (exec evs new_GameManager)"
    by (rule exec_one_host)
  then show ?thesis
    by (simp add: games_all_def one_host_one_slot_def)
qed

text \<open>
  A run with a creation, a join, the departure of the guest and a sweep: the table is
  not empty at its end, and its session satisfies the invariant.
\<close>

theorem every_session_one_host_at_most_one_guest_witness:
  "activeGames (exec [(1000, CreateGame ''hostA'' ''Alice'' ''0.g7k2m9xq1''),
                      (2000, JoinGame ''guestB'' ''G7K2M9'' ''Bob''),
                      (3000, Disconnect ''guestB''),
                      (100000, CleanupTick)] new_GameManager) \<noteq> [] \<and>
   list_all (\<lambda>(gameId, g). host_count g = 1 \<and> guest_count g \<le> 1)
     (activeGames (exec [(1000, CreateGame ''hostA'' ''Alice'' ''0.g7k2m9xq1''),
                      (2000, JoinGame ''guestB'' ''G7K2M9'' ''Bob''),
                      (3000, Disconnect ''guestB''),
                      (100000, CleanupTick)] new_GameManager))"
proof -
  have ne: "activeGames (exec [(1000, CreateGame ''hostA'' ''Alice'' ''0.g7k2m9xq1''),
                      (2000, JoinGame ''guestB'' ''G7K2M9'' ''Bob''),
                      (3000, Disconnect ''guestB''),
                      (100000, CleanupTick)] new_GameManager) \<noteq> []"
    by code_simp
  have "list_all (\<lambda>(gameId, g). host_count g = 1 \<and> guest_count g \<le> 1)
     (activeGames (exec [(1000, CreateGame ''hostA'' ''Alice'' ''0.g7k2m9xq1''),
                      (2000, JoinGame ''guestB'' ''G7K2M9'' ''Bob''),
                      (3000, Disconnect ''guestB''),
                      (100000, CleanupTick)] new_GameManager))"
    unfolding list_all_iff by (rule every_session_one_host_at_most_one_guest)
  with ne show ?thesis by (rule conjI)
qed

subsection \<open>C2: when a join is rejected\<close>

text \<open>
  Claim C2 says that the host of a session that joins its own session, while the guest
  slot is empty, is rejected. \<^verbatim>\<open>joinGame\<close> does not compare the joining connection with the
  host: \<^verbatim>\<open>hostA\<close> creates \<^verbatim>\<open>G7K2M9\<close>, then joins it, and is answered with success; the
  game then has \<^verbatim>\<open>hostA\<close> as host and as guest.
\<close>

theorem join_own_session_counterexample:
  "map_option host (Map_get (activeGames
       (exec [(1000, CreateGame ''hostA'' ''Alice'' ''0.g7k2m9xq1'')] new_GameManager)) ''G7K2M9'')
     = Some (Some ''hostA'') \<and>
   map_option guest (Map_get (activeGames
       (exec [(1000, CreateGame ''hostA'' ''Alice'' ''0.g7k2m9xq1'')] new_GameManager)) ''G7K2M9'')
     = Some None \<and>
   snd (on_joinGame ''hostA'' ''G7K2M9'' ''Alice'' 2000
       (exec [(1000, CreateGame ''hostA'' ''Alice'' ''0.g7k2m9xq1'')] new_GameManager)) =
     [SocketJoin ''hostA'' ''G7K2M9'',
      Emit (Some ''hostA'') ''gameStart'' (JObj [(''rightPlayer'', JStr ''Alice'')]),
      Callback ''hostA'' (JObj [(''status'', JStr ''success'')])] \<and>
   map_option guest (Map_get (activeGames (fst (on_joinGame ''hostA'' ''G7K2M9'' ''Alice'' 2000
       (exec [(1000, CreateGame ''hostA'' ''Alice'' ''0.g7k2m9xq1'')] new_GameManager)))) ''G7K2M9'')
     = Some (Some ''hostA'')"
  by code_simp

text \<open>
  Claim C2, amended. In a state \<open>m\<close> reached from the empty manager by events of
  connections with non-empty identifiers:
  \<^item> the \<^verbatim>\<open>joinGame\<close> handler leaves the state unchanged and answers the caller with the
    error \<^verbatim>\<open>Game not found or full\<close> exactly when no session has the identifier or
    the guest slot of the session is occupied;
  \<^item> otherwise the join succeeds, whoever the caller is (the host of the session
    included): the caller becomes the guest, the host is unchanged, the host is sent
    \<^verbatim>\<open>gameStart\<close> and the caller is answered with success;
  \<^item> a join on a session whose status is \<^verbatim>\<open>'playing'\<close> always fails with that error.
\<close>

theorem join_rejected_iff_absent_or_occupied:
  assumes "\<forall>(t, e) \<in> set evs. valid_event e" and "m = exec evs new_GameManager"
  shows "(on_joinGame sid gameId playerName now m = (m, [Callback sid join_error]) \<longleftrightarrow>
            (Map_get (activeGames m) gameId = None \<or>
             (\<exists>g. Map_get (activeGames m) gameId = Some g \<and> truthy (guest g)))) \<and>
         (\<forall>g. Map_get (activeGames m) gameId = Some g \<and> \<not> truthy (guest g) \<longrightarrow>
            (\<exists>m'. on_joinGame sid gameId playerName now m =
                    (m', [SocketJoin sid gameId,
                          Emit (host g) ''gameStart'' (JObj [(''rightPlayer'', JStr playerName)]),
                          Callback sid join_success]) \<and>
                  map_option guest (Map_get (activeGames m') gameId) = Some (Some sid) \<and>
                  map_option host (Map_get (activeGames m') gameId) = Some (host g))) \<and>
         (\<forall>g. Map_get (activeGames m) gameId = Some g \<and> status g = Playing \<longrightarrow>
            on_joinGame sid gameId playerName now m = (m, [Callback sid join_error]))"
proof -
  have inv: "games_all playing_has_guest m"
    unfolding assms(2)
    by (rule exec_playing_has_guest) (simp_all add: games_all_def new_GameManager_def assms(1))
  have a: "on_joinGame sid gameId playerName now m = (m, [Callback sid join_error]) \<longleftrightarrow>
            (Map_get (activeGames m) gameId = None \<or>
             (\<exists>g. Map_get (activeGames m) gameId = Some g \<and> truthy (guest g)))"
    unfolding joinGame_None_iff[symmetric, of _ gameId sid playerName now] on_joinGame_reply
    by (auto split: option.splits)
  have b: "\<exists>m'. on_joinGame sid gameId playerName now m =
                    (m', [SocketJoin sid gameId,
                          Emit (host g) ''gameStart'' (JObj [(''rightPlayer'', JStr playerName)]),
                          Callback sid join_success]) \<and>
                  map_option guest (Map_get (activeGames m') gameId) = Some (Some sid) \<and>
                  map_option host (Map_get (activeGames m') gameId) = Some (host g)"
    if "Map_get (activeGames m) gameId = Some g" "\<not> truthy (guest g)" for g
    using that by (simp add: on_joinGame_reply joinGame_def Let_def update_conv')
  have c: "on_joinGame sid gameId playerName now m = (m, [Callback sid join_error])"
    if "Map_get (activeGames m) gameId = Some g" "status g = Playing" for g
  proof -
    have "truthy (guest g)"
      using games_all_lookup[OF inv that(1)] that(2) by (simp add: playing_has_guest_def)
    then show ?thesis using that(1) a by blast
  qed
  show ?thesis using a b c by blast
qed

text \<open>
  After a creation and a join the session is \<^verbatim>\<open>'playing'\<close>, and a third connection that
  joins it is answered with the error.
\<close>

theorem join_rejected_iff_absent_or_occupied_witness:
  "list_all (\<lambda>(t, e). valid_event e)
     [(1000, CreateGame ''hostA'' ''Alice'' ''0.g7k2m9xq1''),
      (2000, JoinGame ''guestB'' ''G7K2M9'' ''Bob'')] \<and>
   map_option status (Map_get (activeGames (exec [(1000, CreateGame ''hostA'' ''Alice'' ''0.g7k2m9xq1''),
                     (2000, JoinGame ''guestB'' ''G7K2M9'' ''Bob'')] new_GameManager)) ''G7K2M9'')
     = Some Playing \<and>
   on_joinGame ''guestC'' ''G7K2M9'' ''Carol'' 3000
       (exec [(1000, CreateGame ''hostA'' ''Alice'' ''0.g7k2m9xq1''),
              (2000, JoinGame ''guestB'' ''G7K2M9'' ''Bob'')] new_GameManager) =
     (exec [(1000, CreateGame ''hostA'' ''Alice'' ''0.g7k2m9xq1''),
            (2000, JoinGame ''guestB'' ''G7K2M9'' ''Bob'')] new_GameManager,
      [Callback ''guestC'' join_error])"
proof -
  let ?evs = "[(1000, CreateGame ''hostA'' ''Alice'' ''0.g7k2m9xq1''),
               (2000, JoinGame ''guestB'' ''G7K2M9'' ''Bob'')]"
  have v: "\<forall>(t, e) \<in> set ?evs. valid_event e"
    by simp
  have p: "map_option status (Map_get (activeGames (exec ?evs new_GameManager)) ''G7K2M9'') = Some Playing"
    by code_simp
  then obtain g where g: "Map_get (activeGames (exec ?evs new_GameManager)) ''G7K2M9'' = Some g"
    and "status g = Playing"
    by (cases "Map_get (activeGames (exec ?evs new_GameManager)) ''G7K2M9''") auto
  with join_rejected_iff_absent_or_occupied[OF v refl, of "''guestC''" "''G7K2M9''" "''Carol''" 3000]
  have "on_joinGame ''guestC'' ''G7K2M9'' ''Carol'' 3000 (exec ?evs new_GameManager) =
          (exec ?evs new_GameManager, [Callback ''guestC'' join_error])"
    by blast
  moreover have "list_all (\<lambda>(t, e). valid_event e) ?evs"
    by simp
  ultimately show ?thesis using p by blast
qed

subsection \<open>C3: identifiers of new sessions are not checked for collisions\<close>

text \<open>
  Claim C3 says that \<^verbatim>\<open>createGame\<close> re-rolls an identifier that is already in the table.
  It does not: \<^verbatim>\<open>hostA\<close> holds the session \<^verbatim>\<open>G7K2M9\<close>; \<^verbatim>\<open>hostB\<close> creates a session and
  the draw gives the same identifier; the table then holds one session, \<^verbatim>\<open>G7K2M9\<close> of
  \<^verbatim>\<open>hostB\<close>, and the session of \<^verbatim>\<open>hostA\<close> is gone.
\<close>

theorem createGame_collision_counterexample:
  "map_option host (Map_get (activeGames
       (exec [(1000, CreateGame ''hostA'' ''Alice'' ''0.g7k2m9xq1'')] new_GameManager)) ''G7K2M9'')
     = Some (Some ''hostA'') \<and>
   map (\<lambda>(k, g). (k, host g, hostName g, lastActivity g))
     (activeGames (snd (createGame ''hostB'' ''Bob'' ''0.g7k2m9xq1'' 2000
        (exec [(1000, CreateGame ''hostA'' ''Alice'' ''0.g7k2m9xq1'')] new_GameManager))))
     = [(''G7K2M9'', Some ''hostB'', ''Bob'', 2000)]"
  by code_simp

text \<open>
  Claim C3, amended. \<^verbatim>\<open>createGame\<close> makes no collision check: it stores the new
  \<^verbatim>\<open>'waiting'\<close> session under the generated identifier, whatever the table holds there,
  and binds the host to it in the membership index. The sessions stored under every
  other identifier are unchanged; so when the generated identifier names no session of
  the table, every existing session stays in the table as it was.
\<close>

theorem createGame_inserts_without_check:
  "let gameId = generateGameId r; (g, m') = createGame hostId playerName r now m in
     game_id g = gameId \<and> host g = Some hostId \<and> guest g = None \<and> status g = Waiting \<and>
     Map_get (activeGames m') gameId = Some g \<and>
     Map_get (playerSockets m') hostId = Some gameId \<and>
     (\<forall>k. k \<noteq> gameId \<longrightarrow> Map_get (activeGames m') k = Map_get (activeGames m) k) \<and>
     (Map_get (activeGames m) gameId = None \<longrightarrow>
        (\<forall>k g0. Map_get (activeGames m) k = Some g0 \<longrightarrow> Map_get (activeGames m') k = Some g0))"
  by (auto simp: createGame_def Let_def update_conv')

text \<open>
  \<^verbatim>\<open>hostB\<close> creates a session with a draw whose identifier, \<^verbatim>\<open>Q4W8ZT\<close>, is not in the
  table: the session \<^verbatim>\<open>G7K2M9\<close> of \<^verbatim>\<open>hostA\<close> is unchanged.
\<close>

theorem createGame_inserts_without_check_witness:
  "Map_get (activeGames (exec [(1000, CreateGame ''hostA'' ''Alice'' ''0.g7k2m9xq1'')] new_GameManager))
      (generateGameId ''0.q4w8ztabc'') = None \<and>
   map_option host (Map_get (activeGames
      (exec [(1000, CreateGame ''hostA'' ''Alice'' ''0.g7k2m9xq1'')] new_GameManager)) ''G7K2M9'')
     = Some (Some ''hostA'') \<and>
   Map_get (activeGames (snd (createGame ''hostB'' ''Bob'' ''0.q4w8ztabc'' 2000
      (exec [(1000, CreateGame ''hostA'' ''Alice'' ''0.g7k2m9xq1'')] new_GameManager)))) ''G7K2M9'' =
   Map_get (activeGames
      (exec [(1000, CreateGame ''hostA'' ''Alice'' ''0.g7k2m9xq1'')] new_GameManager)) ''G7K2M9''"
proof -
  let ?m = "exec [(1000, CreateGame ''hostA'' ''Alice'' ''0.g7k2m9xq1'')] new_GameManager"
  have a: "Map_get (activeGames ?m) (generateGameId ''0.q4w8ztabc'') = None"
    by code_simp
  have b: "map_option host (Map_get (activeGames ?m) ''G7K2M9'') = Some (Some ''hostA'')"
    by code_simp
  have ne: "''G7K2M9'' \<noteq> generateGameId ''0.q4w8ztabc''"
    by code_simp
  have c: "Map_get (activeGames (snd (createGame ''hostB'' ''Bob'' ''0.q4w8ztabc'' 2000 ?m))) ''G7K2M9'' =
           Map_get (activeGames ?m) ''G7K2M9''"
    using createGame_inserts_without_check[of "''0.q4w8ztabc''" "''hostB''" "''Bob''" 2000 ?m] ne
    by (simp add: Let_def split: prod.splits)
  show ?thesis using a b c by blast
qed

subsection \<open>C4: departure of the guest\<close>

text \<open>
  Claim C4 says that the departure of the guest sets \<^verbatim>\<open>lastActivity\<close> to the current
  time. The guest branch of the \<^verbatim>\<open>disconnect\<close> handler does not write the field: the
  guest joins at time 2000 and leaves at time 9000, and \<^verbatim>\<open>lastActivity\<close> is still 2000.
\<close>

theorem guest_disconnect_keeps_lastActivity_counterexample:
  "map_option lastActivity (Map_get (activeGames
      (exec [(1000, CreateGame ''hostA'' ''Alice'' ''0.g7k2m9xq1''),
             (2000, JoinGame ''guestB'' ''G7K2M9'' ''Bob''),
             (9000, Disconnect ''guestB'')] new_GameManager)) ''G7K2M9'') = Some 2000 \<and>
   map_option lastActivity (Map_get (activeGames
      (exec [(1000, CreateGame ''hostA'' ''Alice'' ''0.g7k2m9xq1''),
             (2000, JoinGame ''guestB'' ''G7K2M9'' ''Bob''),
             (9000, Disconnect ''guestB'')] new_GameManager)) ''G7K2M9'') \<noteq> Some 9000"
  by code_simp

text \<open>
  Claim C4, amended. When the guest \<open>sid\<close> of the session \<open>gameId\<close> disconnects (the
  membership index binds \<open>sid\<close> to \<open>gameId\<close>, and \<open>sid\<close> is the guest and not the host
  of the session), the guest slot and the guest name are cleared, the status is
  \<^verbatim>\<open>'waiting'\<close>, every other field of the session, \<^verbatim>\<open>lastActivity\<close> included, keeps its
  value, the membership entry of \<open>sid\<close> is removed, every other membership entry, the
  host's included, is unchanged, and the host is sent \<^verbatim>\<open>guestDisconnected\<close>.
\<close>

theorem guest_disconnect_effect:
  assumes "Map_get (playerSockets m) sid = Some gameId" and "gameId \<noteq> []"
    and "Map_get (activeGames m) gameId = Some g"
    and "host g \<noteq> Some sid" and "guest g = Some sid"
  shows "let (m', out) = on_disconnect sid m in
           Map_get (activeGames m') gameId =
             Some (g\<lparr> guest := None, guestName := None, status := Waiting \<rparr>) \<and>
           map_option lastActivity (Map_get (activeGames m') gameId) = Some (lastActivity g) \<and>
           Map_get (playerSockets m') sid = None \<and>
           (\<forall>c. c \<noteq> sid \<longrightarrow> Map_get (playerSockets m') c = Map_get (playerSockets m) c) \<and>
           (\<forall>h. host g = Some h \<longrightarrow> Map_get (playerSockets m') h = Map_get (playerSockets m) h) \<and>
           out = [Emit (host g) ''guestDisconnected'' JUndefined]"
  using assms by (auto simp: on_disconnect_def Let_def update_conv' delete_conv')

text \<open>
  \<^verbatim>\<open>guestB\<close> joins the session of \<^verbatim>\<open>hostA\<close> at time 2000 and disconnects.
\<close>

theorem guest_disconnect_effect_witness:
  "Map_get (playerSockets (exec [(1000, CreateGame ''hostA'' ''Alice'' ''0.g7k2m9xq1''),
             (2000, JoinGame ''guestB'' ''G7K2M9'' ''Bob'')] new_GameManager)) ''guestB'' = Some ''G7K2M9'' \<and>
   (let (m', out) = on_disconnect ''guestB''
        (exec [(1000, CreateGame ''hostA'' ''Alice'' ''0.g7k2m9xq1''),
               (2000, JoinGame ''guestB'' ''G7K2M9'' ''Bob'')] new_GameManager)
    in map_option status (Map_get (activeGames m') ''G7K2M9'') = Some Waiting \<and>
       map_option guest (Map_get (activeGames m') ''G7K2M9'') = Some None \<and>
       map_option lastActivity (Map_get (activeGames m') ''G7K2M9'') = Some 2000 \<and>
       Map_get (playerSockets m') ''guestB'' = None \<and>
       Map_get (playerSockets m') ''hostA'' = Some ''G7K2M9'' \<and>
       out = [Emit (Some ''hostA'') ''guestDisconnected'' JUndefined])"
proof -
  let ?m = "exec [(1000, CreateGame ''hostA'' ''Alice'' ''0.g7k2m9xq1''),
                  (2000, JoinGame ''guestB'' ''G7K2M9'' ''Bob'')] new_GameManager"
  let ?g = "\<lparr> game_id = ''G7K2M9'', host = Some ''hostA'', hostName = ''Alice'',
              guest = Some ''guestB'', guestName = Some ''Bob'', ball = JNull,
              leftScore = JNum 0, rightScore = JNum 0,
              leftPaddle_y = JNum 0, rightPaddle_y = JNum 0,
              remainingTime = JNum 120, lastActivity = 2000, status = Playing \<rparr>"
  have h1: "Map_get (playerSockets ?m) ''guestB'' = Some ''G7K2M9''" by code_simp
  have h2: "''G7K2M9'' \<noteq> []" by simp
  have h3: "Map_get (activeGames ?m) ''G7K2M9'' = Some ?g" by code_simp
  have h4: "host ?g \<noteq> Some ''guestB''" by simp
  have h5: "guest ?g = Some ''guestB''" by simp
  have h6: "Map_get (playerSockets ?m) ''hostA'' = Some ''G7K2M9''" by code_simp
  show ?thesis
    using guest_disconnect_effect[OF h1 h2 h3 h4 h5] h1 h6
    by (auto simp: Let_def split: prod.splits)
qed

subsection \<open>C5: removal of a session\<close>

text \<open>
  Claim C5. \<^verbatim>\<open>removeGame\<close> changes nothing when no session has the identifier, and
  removing twice is removing once. After \<^verbatim>\<open>removeGame\<close> the identifier names no session;
  when it named one, the membership entries of the host of that session and of its guest
  (if the guest slot was occupied) are absent. A join with the identifier after the
  removal fails, and the handler answers \<^verbatim>\<open>Game not found or full\<close>.
\<close>

theorem removeGame_idempotent_and_complete:
  "(Map_get (activeGames m) gameId = None \<longrightarrow> removeGame gameId m = m) \<and>
   removeGame gameId (removeGame gameId m) = removeGame gameId m \<and>
   Map_get (activeGames (removeGame gameId m)) gameId = None \<and>
   (\<forall>g h. Map_get (activeGames m) gameId = Some g \<and> host g = Some h \<longrightarrow>
      Map_get (playerSockets (removeGame gameId m)) h = None) \<and>
   (\<forall>g c. Map_get (activeGames m) gameId = Some g \<and> guest g = Some c \<and> c \<noteq> [] \<longrightarrow>
      Map_get (playerSockets (removeGame gameId m)) c = None) \<and>
   joinGame gameId sid playerName now (removeGame gameId m) = None \<and>
   on_joinGame sid gameId playerName now (removeGame gameId m) =
     (removeGame gameId m, [Callback sid join_error])"
proof -
  have idem: "removeGame gameId (removeGame gameId m) = removeGame gameId m"
    by (rule removeGame_absent) simp
  have hostgone: "Map_get (playerSockets (removeGame gameId m)) h = None"
    if "Map_get (activeGames m) gameId = Some g" "host g = Some h" for g h
    using that by (simp add: removeGame_def Let_def Map_get_delete_nullable delete_conv')
  have guestgone: "Map_get (playerSockets (removeGame gameId m)) c = None"
    if "Map_get (activeGames m) gameId = Some g" "guest g = Some c" "c \<noteq> []" for g c
    using that by (simp add: removeGame_def Let_def Map_get_delete_nullable delete_conv')
  have j: "joinGame gameId sid playerName now (removeGame gameId m) = None"
    by (simp add: joinGame_def)
  have oj: "on_joinGame sid gameId playerName now (removeGame gameId m) =
     (removeGame gameId m, [Callback sid join_error])"
    by (simp add: on_joinGame_reply j)
  show ?thesis
    using removeGame_absent[of m gameId] idem hostgone guestgone j oj by auto
qed

text \<open>
  The session of \<^verbatim>\<open>hostA\<close> with guest \<^verbatim>\<open>guestB\<close> is removed, and both membership entries
  are gone; on the empty manager the removal changes nothing.
\<close>

theorem removeGame_idempotent_and_complete_witness:
  "map_option host (Map_get (activeGames (exec [(1000, CreateGame ''hostA'' ''Alice'' ''0.g7k2m9xq1''),
             (2000, JoinGame ''guestB'' ''G7K2M9'' ''Bob'')] new_GameManager)) ''G7K2M9'') = Some (Some ''hostA'') \<and>
   map_option guest (Map_get (activeGames (exec [(1000, CreateGame ''hostA'' ''Alice'' ''0.g7k2m9xq1''),
             (2000, JoinGame ''guestB'' ''G7K2M9'' ''Bob'')] new_GameManager)) ''G7K2M9'') = Some (Some ''guestB'') \<and>
   Map_get (playerSockets (removeGame ''G7K2M9'' (exec [(1000, CreateGame ''hostA'' ''Alice'' ''0.g7k2m9xq1''),
             (2000, JoinGame ''guestB'' ''G7K2M9'' ''Bob'')] new_GameManager))) ''hostA'' = None \<and>
   Map_get (playerSockets (removeGame ''G7K2M9'' (exec [(1000, CreateGame ''hostA'' ''Alice'' ''0.g7k2m9xq1''),
             (2000, JoinGame ''guestB'' ''G7K2M9'' ''Bob'')] new_GameManager))) ''guestB'' = None \<and>
   Map_get (activeGames new_GameManager) ''G7K2M9'' = None \<and>
   removeGame ''G7K2M9'' new_GameManager = new_GameManager"
proof -
  let ?m = "exec [(1000, CreateGame ''hostA'' ''Alice'' ''0.g7k2m9xq1''),
                  (2000, JoinGame ''guestB'' ''G7K2M9'' ''Bob'')] new_GameManager"
  have h: "map_option host (Map_get (activeGames ?m) ''G7K2M9'') = Some (Some ''hostA'')"
    by code_simp
  have g: "map_option guest (Map_get (activeGames ?m) ''G7K2M9'') = Some (Some ''guestB'')"
    by code_simp
  have e: "Map_get (activeGames new_GameManager) ''G7K2M9'' = None"
    by code_simp
  have ne: "''guestB'' \<noteq> []" by simp
  from h g obtain g0 where g0: "Map_get (activeGames ?m) ''G7K2M9'' = Some g0"
      "host g0 = Some ''hostA''" "guest g0 = Some ''guestB''"
    by (cases "Map_get (activeGames ?m) ''G7K2M9''") auto
  have a: "Map_get (playerSockets (removeGame ''G7K2M9'' ?m)) ''hostA'' = None"
    using removeGame_idempotent_and_complete[of ?m "''G7K2M9''"] g0 by blast
  have b: "Map_get (playerSockets (removeGame ''G7K2M9'' ?m)) ''guestB'' = None"
    using removeGame_idempotent_and_complete[of ?m "''G7K2M9''"] g0 ne by blast
  have c: "removeGame ''G7K2M9'' new_GameManager = new_GameManager"
    using removeGame_idempotent_and_complete[of new_GameManager "''G7K2M9''"] e by blast
  show ?thesis using h g a b e c by blast
qed

subsection \<open>C6: the idle sweep\<close>

text \<open>
  Claim C6. \<^verbatim>\<open>cleanupInactiveGames\<close>, run at time \<open>now\<close> on a table (whose keys are
  distinct, as the keys of a \<^verbatim>\<open>Map\<close> are), removes exactly the sessions whose
  \<^verbatim>\<open>lastActivity\<close> is less than \<open>now\<close> minus the threshold of five minutes; every other
  session stays, in place, with the same record.
\<close>

theorem sweep_removes_exactly_idle:
  assumes "distinct (map fst (activeGames m))"
  shows "activeGames (cleanupInactiveGames now m) =
           filter (\<lambda>(gameId, g). \<not> lastActivity g < now - inactiveThreshold) (activeGames m) \<and>
         (\<forall>gameId. Map_get (activeGames (cleanupInactiveGames now m)) gameId =
            (case Map_get (activeGames m) gameId of
               None \<Rightarrow> None
             | Some g \<Rightarrow> if lastActivity g < now - inactiveThreshold then None else Some g))"
  using cleanup_activeGames[OF assms] cleanup_lookup[OF assms] by simp

text \<open>
  Two sessions, last active at 1000 and at 200000, swept at 400000.
\<close>

theorem sweep_removes_exactly_idle_witness:
  "distinct (map fst (activeGames (exec [(1000, CreateGame ''hostA'' ''Alice'' ''0.g7k2m9xq1''),
             (200000, CreateGame ''hostB'' ''Bob'' ''0.q4w8ztabc'')] new_GameManager))) \<and>
   map (\<lambda>(k, g). (k, lastActivity g))
     (activeGames (exec [(1000, CreateGame ''hostA'' ''Alice'' ''0.g7k2m9xq1''),
             (200000, CreateGame ''hostB'' ''Bob'' ''0.q4w8ztabc'')] new_GameManager)) =
     [(''G7K2M9'', 1000), (''Q4W8ZT'', 200000)] \<and>
   activeGames (cleanupInactiveGames 400000
       (exec [(1000, CreateGame ''hostA'' ''Alice'' ''0.g7k2m9xq1''),
              (200000, CreateGame ''hostB'' ''Bob'' ''0.q4w8ztabc'')] new_GameManager)) =
     filter (\<lambda>(gameId, g). \<not> lastActivity g < 400000 - inactiveThreshold)
       (activeGames (exec [(1000, CreateGame ''hostA'' ''Alice'' ''0.g7k2m9xq1''),
              (200000, CreateGame ''hostB'' ''Bob'' ''0.q4w8ztabc'')] new_GameManager))"
proof -
  let ?m = "exec [(1000, CreateGame ''hostA'' ''Alice'' ''0.g7k2m9xq1''),
                  (200000, CreateGame ''hostB'' ''Bob'' ''0.q4w8ztabc'')] new_GameManager"
  have d: "distinct (map fst (activeGames ?m))" by code_simp
  have l: "map (\<lambda>(k, g). (k, lastActivity g)) (activeGames ?m) =
             [(''G7K2M9'', 1000), (''Q4W8ZT'', 200000)]" by code_simp
  show ?thesis
    using d l sweep_removes_exactly_idle[OF d, of 400000] by blast
qed

subsection \<open>C7: host-only updates from other connections\<close>

text \<open>
  Claim C7. A \<^verbatim>\<open>ballUpdate\<close>, \<^verbatim>\<open>scoreUpdate\<close> or \<^verbatim>\<open>timerUpdate\<close> of a connection that is
  not the registered host of its current session (the guest of the session, a connection
  bound to no session, a connection bound to a session that is gone) changes nothing in
  the manager, \<^verbatim>\<open>lastActivity\<close> included, and makes no call on the transport: no reply
  and no emit.
\<close>

theorem non_host_updates_discarded:
  assumes "\<not> is_host_of_current m sid"
  shows "on_ballUpdate sid b now m = (m, []) \<and>
         on_scoreUpdate sid l r now m = (m, []) \<and>
         on_timerUpdate sid t now m = (m, [])"
  using assms
  by (auto simp: is_host_of_current_def on_ballUpdate_def on_scoreUpdate_def on_timerUpdate_def
      split: option.splits)

text \<open>
  The guest \<^verbatim>\<open>guestB\<close> of a running session sends the three updates.
\<close>

theorem non_host_updates_discarded_witness:
  "\<not> is_host_of_current (exec [(1000, CreateGame ''hostA'' ''Alice'' ''0.g7k2m9xq1''),
             (2000, JoinGame ''guestB'' ''G7K2M9'' ''Bob'')] new_GameManager) ''guestB'' \<and>
   on_ballUpdate ''guestB'' (JObj [(''x'', JNum 1), (''y'', JNum 2)]) 3000
      (exec [(1000, CreateGame ''hostA'' ''Alice'' ''0.g7k2m9xq1''),
             (2000, JoinGame ''guestB'' ''G7K2M9'' ''Bob'')] new_GameManager) =
     (exec [(1000, CreateGame ''hostA'' ''Alice'' ''0.g7k2m9xq1''),
            (2000, JoinGame ''guestB'' ''G7K2M9'' ''Bob'')] new_GameManager, []) \<and>
   on_scoreUpdate ''guestB'' (JNum 9) (JNum 0) 3000
      (exec [(1000, CreateGame ''hostA'' ''Alice'' ''0.g7k2m9xq1''),
             (2000, JoinGame ''guestB'' ''G7K2M9'' ''Bob'')] new_GameManager) =
     (exec [(1000, CreateGame ''hostA'' ''Alice'' ''0.g7k2m9xq1''),
            (2000, JoinGame ''guestB'' ''G7K2M9'' ''Bob'')] new_GameManager, []) \<and>
   on_timerUpdate ''guestB'' (JNum 0) 3000
      (exec [(1000, CreateGame ''hostA'' ''Alice'' ''0.g7k2m9xq1''),
             (2000, JoinGame ''guestB'' ''G7K2M9'' ''Bob'')] new_GameManager) =
     (exec [(1000, CreateGame ''hostA'' ''Alice'' ''0.g7k2m9xq1''),
            (2000, JoinGame ''guestB'' ''G7K2M9'' ''Bob'')] new_GameManager, [])"
proof -
  let ?m = "exec [(1000, CreateGame ''hostA'' ''Alice'' ''0.g7k2m9xq1''),
                  (2000, JoinGame ''guestB'' ''G7K2M9'' ''Bob'')] new_GameManager"
  have h: "\<not> is_host_of_current ?m ''guestB''" by code_simp
  show ?thesis
    using h non_host_updates_discarded[OF h] by blast
qed

subsection \<open>C8: the shape of a session identifier\<close>

text \<open>
  The identifier has six characters only when the rendering of the draw has at least
  eight.
\<close>

lemma generateGameId_length: "length (generateGameId r) = min 6 (length r - 2)"
  by (auto simp: generateGameId_def substring_def toUpperCase_def Let_def min_def max_def)

text \<open>
  Claim C8 says that for every draw the identifier is a token of six upper-case
  alphanumeric characters. The draw 0.5 is rendered \<^verbatim>\<open>0.i\<close> in base 36, and the
  identifier is the one-character token \<^verbatim>\<open>I\<close>, which the \<^verbatim>\<open>createGame\<close> handler returns to
  the caller with status success; the draw 0 is rendered \<^verbatim>\<open>0\<close> and gives the empty
  identifier.
\<close>

theorem short_draw_gives_short_id:
  "generateGameId ''0.i'' = ''I'' \<and>
   generateGameId ''0'' = [] \<and>
   snd (on_createGame ''hostA'' ''Alice'' ''0.i'' 1000 new_GameManager) =
     [SocketJoin ''hostA'' ''I'',
      Callback ''hostA'' (JObj [(''status'', JStr ''success''), (''gameId'', JStr ''I'')])]"
  by code_simp

subsection \<open>C9: the list of waiting sessions\<close>

text \<open>
  Claim C9 says that \<^verbatim>\<open>createdAt\<close> in an entry of the list is the creation time of the
  session. \<^verbatim>\<open>getAvailableGames\<close> fills \<^verbatim>\<open>createdAt\<close> with \<^verbatim>\<open>lastActivity\<close>: a session
  created at time 1000 whose host answers a heartbeat at time 16000 is listed with
  \<^verbatim>\<open>createdAt\<close> 16000. A session created at time 1000 that a guest joins at time 2000
  is not listed while the guest is there; when the guest has disconnected it is listed
  again, with \<^verbatim>\<open>createdAt\<close> 2000.
\<close>

theorem createdAt_is_lastActivity:
  "getAvailableGames (exec [(1000, CreateGame ''hostA'' ''Alice'' ''0.g7k2m9xq1''),
                            (16000, Pong ''hostA'')] new_GameManager) =
     [JObj [(''id'', JStr ''G7K2M9''),
            (''name'', JStr (''Alice'' @ [CHR 0x27] @ ''s Game'')),
            (''createdAt'', JNum 16000)]] \<and>
   getAvailableGames (exec [(1000, CreateGame ''hostA'' ''Alice'' ''0.g7k2m9xq1''),
                            (2000, JoinGame ''guestB'' ''G7K2M9'' ''Bob'')] new_GameManager) = [] \<and>
   getAvailableGames (exec [(1000, CreateGame ''hostA'' ''Alice'' ''0.g7k2m9xq1''),
                            (2000, JoinGame ''guestB'' ''G7K2M9'' ''Bob''),
                            (9000, Disconnect ''guestB'')] new_GameManager) =
     [JObj [(''id'', JStr ''G7K2M9''),
            (''name'', JStr (''Alice'' @ [CHR 0x27] @ ''s Game'')),
            (''createdAt'', JNum 2000)]]"
  by code_simp

subsection \<open>C10: a host that creates a second session\<close>

text \<open>
  Claim C10 says that a host that creates again gets a second session while the first
  stays in the table, and that its disconnection removes the new session only. When the
  second draw gives the identifier of the first session, the table holds one session
  (the new one, under the old identifier), and the disconnection of the host empties the
  table. When the second draw is 0, rendered \<^verbatim>\<open>0\<close>, the new identifier is empty, the
  \<^verbatim>\<open>disconnect\<close> handler returns at \<^verbatim>\<open>if (!gameId)\<close>, and both sessions stay.
\<close>

theorem second_createGame_counterexample:
  "map (\<lambda>(k, g). (k, host g))
     (activeGames (exec [(1000, CreateGame ''hostA'' ''Alice'' ''0.g7k2m9xq1'')] new_GameManager)) =
     [(''G7K2M9'', Some ''hostA'')] \<and>
   map (\<lambda>(k, g). (k, host g, lastActivity g))
     (activeGames (exec [(1000, CreateGame ''hostA'' ''Alice'' ''0.g7k2m9xq1''),
                         (2000, CreateGame ''hostA'' ''Alice'' ''0.g7k2m9xq1'')] new_GameManager)) =
     [(''G7K2M9'', Some ''hostA'', 2000)] \<and>
   activeGames (exec [(1000, CreateGame ''hostA'' ''Alice'' ''0.g7k2m9xq1''),
                      (2000, CreateGame ''hostA'' ''Alice'' ''0.g7k2m9xq1''),
                      (3000, Disconnect ''hostA'')] new_GameManager) = [] \<and>
   map (\<lambda>(k, g). (k, host g, lastActivity g))
     (activeGames (exec [(1000, CreateGame ''hostA'' ''Alice'' ''0.g7k2m9xq1''),
                         (2000, CreateGame ''hostA'' ''Alice'' ''0''),
                         (3000, Disconnect ''hostA'')] new_GameManager)) =
     [(''G7K2M9'', Some ''hostA'', 1000), ([], Some ''hostA'', 2000)]"
  by code_simp

text \<open>
  Claim C10, amended. Let the connection \<open>c\<close> be the host of the session \<open>S\<close>, stored
  under \<open>sS\<close> in a table with distinct keys (as every table the server reaches), and let \<open>c\<close> create a session again with a draw whose identifier is not
  empty and differs from \<open>sS\<close>. Then a second session, with host \<open>c\<close>, is stored under the
  new identifier, the membership entry of \<open>c\<close> points at the new session, and \<open>S\<close> is still
  in the table, unchanged, with \<open>c\<close> as its host. When \<open>c\<close> then disconnects, the new
  session and the membership entry of \<open>c\<close> are removed and \<open>S\<close> stays in the table,
  unchanged; a later sweep removes \<open>S\<close> exactly when \<open>S\<close> is idle by then.
\<close>

theorem second_createGame_orphans_first:
  assumes "Map_get (activeGames m) sS = Some S" and "host S = Some c"
    and "generateGameId r \<noteq> sS" and "generateGameId r \<noteq> []"
    and "distinct (map fst (activeGames m))"
  shows "let newId = generateGameId r;
             m1 = fst (on_createGame c playerName r now m);
             m2 = fst (on_disconnect c m1)
         in (\<exists>g. Map_get (activeGames m1) newId = Some g \<and> host g = Some c \<and> status g = Waiting) \<and>
            Map_get (playerSockets m1) c = Some newId \<and>
            Map_get (activeGames m1) sS = Some S \<and>
            Map_get (activeGames m2) newId = None \<and>
            Map_get (playerSockets m2) c = None \<and>
            Map_get (activeGames m2) sS = Some S \<and>
            (\<forall>now'. Map_get (activeGames (cleanupInactiveGames now' m2)) sS =
                      (if lastActivity S < now' - inactiveThreshold then None else Some S))"
proof -
  define newId where "newId = generateGameId r"
  define m1 where "m1 = fst (on_createGame c playerName r now m)"
  define m2 where "m2 = fst (on_disconnect c m1)"
  have ne: "newId \<noteq> sS" "newId \<noteq> []"
    using assms(3,4) by (simp_all add: newId_def)
  have g1: "\<exists>g. Map_get (activeGames m1) newId = Some g \<and> host g = Some c \<and> status g = Waiting"
    by (simp add: m1_def newId_def on_createGame_def createGame_def Let_def update_conv')
  have p1: "Map_get (playerSockets m1) c = Some newId"
    by (simp add: m1_def newId_def on_createGame_def createGame_def Let_def update_conv')
  have s1: "Map_get (activeGames m1) sS = Some S"
    using assms(1) ne(1)
    by (simp add: m1_def newId_def on_createGame_def createGame_def Let_def update_conv')
  have d1: "distinct (map fst (activeGames m1))"
    using assms(5)
    by (simp add: m1_def on_createGame_def createGame_def Let_def distinct_update)
  obtain g where g: "Map_get (activeGames m1) newId = Some g" "host g = Some c"
    using g1 by blast
  have m2_eq: "m2 = (removeGame newId m1)\<lparr> playerSockets := Map_delete c (playerSockets (removeGame newId m1)) \<rparr>"
    using p1 g ne(2) by (simp add: m2_def on_disconnect_def)
  have g2: "Map_get (activeGames m2) newId = None"
    by (simp add: m2_eq)
  have p2: "Map_get (playerSockets m2) c = None"
    by (simp add: m2_eq delete_conv')
  have s2: "Map_get (activeGames m2) sS = Some S"
    using s1 ne(1) by (simp add: m2_eq removeGame_other)
  have d2: "distinct (map fst (activeGames m2))"
    using d1 by (simp add: m2_eq distinct_removeGame)
  have sw: "Map_get (activeGames (cleanupInactiveGames now' m2)) sS =
              (if lastActivity S < now' - inactiveThreshold then None else Some S)" for now'
    by (simp add: cleanup_lookup[OF d2] s2)
  show ?thesis
    using g1 p1 s1 g2 p2 s2 sw
    unfolding Let_def newId_def[symmetric] m1_def[symmetric] m2_def[symmetric] by blast
qed

text \<open>
  \<^verbatim>\<open>hostA\<close> creates \<^verbatim>\<open>G7K2M9\<close> at time 1000 and \<^verbatim>\<open>Q4W8ZT\<close> at time 2000, then disconnects;
  the sweep at time 400000 removes \<^verbatim>\<open>G7K2M9\<close>.
\<close>

theorem second_createGame_orphans_first_witness:
  "map_option host (Map_get (activeGames (exec [(1000, CreateGame ''hostA'' ''Alice'' ''0.g7k2m9xq1'')]
       new_GameManager)) ''G7K2M9'') = Some (Some ''hostA'') \<and>
   generateGameId ''0.q4w8ztabc'' = ''Q4W8ZT'' \<and>
   (let m1 = fst (on_createGame ''hostA'' ''Alice'' ''0.q4w8ztabc'' 2000
                   (exec [(1000, CreateGame ''hostA'' ''Alice'' ''0.g7k2m9xq1'')] new_GameManager));
        m2 = fst (on_disconnect ''hostA'' m1)
    in Map_get (playerSockets m1) ''hostA'' = Some ''Q4W8ZT'' \<and>
       map_option host (Map_get (activeGames m1) ''G7K2M9'') = Some (Some ''hostA'') \<and>
       Map_get (activeGames m2) ''Q4W8ZT'' = None \<and>
       Map_get (playerSockets m2) ''hostA'' = None \<and>
       map_option host (Map_get (activeGames m2) ''G7K2M9'') = Some (Some ''hostA'') \<and>
       Map_get (activeGames (cleanupInactiveGames 400000 m2)) ''G7K2M9'' = None)"
proof -
  let ?m = "exec [(1000, CreateGame ''hostA'' ''Alice'' ''0.g7k2m9xq1'')] new_GameManager"
  let ?S = "\<lparr> game_id = ''G7K2M9'', host = Some ''hostA'', hostName = ''Alice'',
              guest = None, guestName = None, ball = JNull,
              leftScore = JNum 0, rightScore = JNum 0,
              leftPaddle_y = JNum 0, rightPaddle_y = JNum 0,
              remainingTime = JNum 120, lastActivity = 1000, status = Waiting \<rparr>"
  have h1: "Map_get (activeGames ?m) ''G7K2M9'' = Some ?S" by code_simp
  have h2: "host ?S = Some ''hostA''" by simp
  have gen: "generateGameId ''0.q4w8ztabc'' = ''Q4W8ZT''" by code_simp
  have h3: "generateGameId ''0.q4w8ztabc'' \<noteq> ''G7K2M9''" by (simp add: gen)
  have h4: "generateGameId ''0.q4w8ztabc'' \<noteq> []" by (simp add: gen)
  have h5: "distinct (map fst (activeGames ?m))" by code_simp
  have st: "lastActivity ?S < 400000 - inactiveThreshold" by (simp add: inactiveThreshold_def)
  show ?thesis
    using second_createGame_orphans_first[OF h1 h2 h3 h4 h5, of "''Alice''" 2000] h1 gen st
    by (auto simp: Let_def)
qed

end
